theory Spec2Isabelle
  imports Main
begin

section \<open>The label/value field resolver of LabelValueReadView\<close>

text \<open>
  This theory embeds \<^verbatim>\<open>LabelValueReadView.get_field_label_value\<close> and
  \<^verbatim>\<open>LabelValueReadView.get_context_data\<close> of \<^verbatim>\<open>bread/bread.py\<close>.

  Python objects are a datatype with one constructor per kind of object the resolver can
  tell apart. The resolver asks four things of an object: is it a string
  (\<^verbatim>\<open>isinstance(x, six_string_types)\<close>), is it callable, what does calling it do, and
  what is \<^verbatim>\<open>str(x)\<close>. Calls may have effects and may raise, so a callable is a function
  from its positional arguments and the world state \<open>'s\<close> to an outcome and a new state.
  The only arguments the resolver ever passes are none at all, or the context dict \<open>'c\<close>.
\<close>

subsection \<open>Exceptions and objects\<close>

datatype exn = ConfigurationError | Raised string

datatype ('c, 's) pyobj =
    PyNone
  | PyBool bool
  | PyInt int
  | PyStr string
  | PyCallableStr string "'c list \<Rightarrow> 's \<Rightarrow> (exn + ('c, 's) pyobj) \<times> 's"
  | PyFunc "'c list \<Rightarrow> 's \<Rightarrow> (exn + ('c, 's) pyobj) \<times> 's"
  | PyObject string

text \<open>
  \<open>PyStr\<close> is a plain string, \<open>PyCallableStr\<close> an instance of a string subclass that
  defines \<^verbatim>\<open>__call__\<close>, \<open>PyFunc\<close> any callable that is not a string (a function, a bound
  method), and \<open>PyObject t\<close> any other object, given by the text of \<^verbatim>\<open>str\<close> on it.
\<close>

type_synonym ('c, 's) outcome = "(exn + ('c, 's) pyobj) \<times> 's"

fun is_string :: "('c, 's) pyobj \<Rightarrow> bool" where
  "is_string (PyStr _) = True"
| "is_string (PyCallableStr _ _) = True"
| "is_string _ = False"

fun string_of :: "('c, 's) pyobj \<Rightarrow> string" where
  "string_of (PyStr t) = t"
| "string_of (PyCallableStr t _) = t"
| "string_of _ = []"

fun callable :: "('c, 's) pyobj \<Rightarrow> bool" where
  "callable (PyFunc _) = True"
| "callable (PyCallableStr _ _) = True"
| "callable _ = False"

fun is_none :: "('c, 's) pyobj \<Rightarrow> bool" where
  "is_none PyNone = True"
| "is_none _ = False"

text \<open>Calling an object that is not callable raises \<^verbatim>\<open>TypeError\<close>.\<close>

fun py_call :: "('c, 's) pyobj \<Rightarrow> 'c list \<Rightarrow> 's \<Rightarrow> ('c, 's) outcome" where
  "py_call (PyFunc f) args s = f args s"
| "py_call (PyCallableStr _ f) args s = f args s"
| "py_call _ args s = (Inl (Raised ''TypeError''), s)"

subsection \<open>The text of an object\<close>

definition digit_char :: "nat \<Rightarrow> char" where
  "digit_char d = ''0123456789'' ! d"

fun str_nat :: "nat \<Rightarrow> string" where
  "str_nat n = (if n < 10 then [digit_char n] else str_nat (n div 10) @ [digit_char (n mod 10)])"

declare str_nat.simps [simp del]

definition str_int :: "int \<Rightarrow> string" where
  "str_int i = (if i < 0 then CHR ''-'' # str_nat (nat (- i)) else str_nat (nat i))"

fun py_str :: "('c, 's) pyobj \<Rightarrow> string" where
  "py_str PyNone = ''None''"
| "py_str (PyBool b) = (if b then ''True'' else ''False'')"
| "py_str (PyInt i) = str_int i"
| "py_str (PyStr t) = t"
| "py_str (PyCallableStr t _) = t"
| "py_str (PyFunc _) = ''<function>''"
| "py_str (PyObject t) = t"

subsection \<open>The displayed object and its field metadata\<close>

text \<open>
  \<^verbatim>\<open>self.object\<close> is a table of members, read in the current state (\<^verbatim>\<open>hasattr\<close> and
  \<^verbatim>\<open>getattr\<close>), together with the verbose names of its model fields.
\<close>

record ('c, 's) model_object =
  members :: "'s \<Rightarrow> string \<Rightarrow> ('c, 's) pyobj option"
  verbose_names :: "string \<Rightarrow> string option"

definition hasattr :: "('c, 's) model_object \<Rightarrow> 's \<Rightarrow> string \<Rightarrow> bool" where
  "hasattr obj s name = (members obj s name \<noteq> None)"

text \<open>
  Modelled from the spec: \<^verbatim>\<open>get_verbose_name\<close> of \<^verbatim>\<open>bread/utils.py\<close>, which is not among
  the sources. The label is the human-readable name looked up in the field metadata under
  the attribute name; the lookup fails with \<open>ConfigurationError\<close> when there is no such
  metadata.
\<close>

definition get_verbose_name :: "('c, 's) model_object \<Rightarrow> string \<Rightarrow> exn + ('c, 's) pyobj" where
  "get_verbose_name obj name =
     (case verbose_names obj name of
        None \<Rightarrow> Inl ConfigurationError
      | Some t \<Rightarrow> Inr (PyStr t))"

subsection \<open>Resolving one field\<close>

type_synonym ('c, 's) fieldspec = "('c, 's) pyobj \<times> ('c, 's) pyobj"

type_synonym ('c, 's) resolved = "(exn + ('c, 's) pyobj \<times> ('c, 's) pyobj) \<times> 's"

definition get_field_label_value ::
  "('c, 's) model_object \<Rightarrow> ('c, 's) pyobj \<Rightarrow> ('c, 's) pyobj \<Rightarrow> 'c \<Rightarrow> 's \<Rightarrow> ('c, 's) resolved"
where
  "get_field_label_value obj label evaluator context_data s =
     (if is_string evaluator then
        (case members obj s (string_of evaluator) of
           Some attr \<Rightarrow>
             (case (if callable attr then py_call attr [] s else (Inr attr, s)) of
                (Inl e, s') \<Rightarrow> (Inl e, s')
              | (Inr val, s') \<Rightarrow>
                  (if is_none label then
                     (case get_verbose_name obj (string_of evaluator) of
                        Inl e \<Rightarrow> (Inl e, s')
                      | Inr l \<Rightarrow> (Inr (l, val), s'))
                   else (Inr (label, val), s')))
         | None \<Rightarrow> (Inr (label, evaluator), s))
      else if callable evaluator then
        (case py_call evaluator [context_data] s of
           (Inl e, s') \<Rightarrow> (Inl e, s')
         | (Inr val, s') \<Rightarrow> (Inr (label, val), s'))
      else (Inr (label, PyStr (py_str evaluator)), s))"

subsection \<open>Resolving the declared list\<close>

text \<open>
  The list comprehension of \<^verbatim>\<open>get_context_data\<close> resolves the fields from left to right
  and stops at the first exception.
\<close>

fun resolve_fields ::
  "('c, 's) model_object \<Rightarrow> ('c, 's) fieldspec list \<Rightarrow> 'c \<Rightarrow> 's
     \<Rightarrow> (exn + (('c, 's) pyobj \<times> ('c, 's) pyobj) list) \<times> 's"
where
  "resolve_fields obj [] context_data s = (Inr [], s)"
| "resolve_fields obj ((label, evaluator) # fs) context_data s =
     (case get_field_label_value obj label evaluator context_data s of
        (Inl e, s') \<Rightarrow> (Inl e, s')
      | (Inr p, s') \<Rightarrow>
          (case resolve_fields obj fs context_data s' of
             (Inl e, s'') \<Rightarrow> (Inl e, s'')
           | (Inr ps, s'') \<Rightarrow> (Inr (p # ps), s'')))"

text \<open>
  The context dict after \<^verbatim>\<open>context_data['read_fields'] = ...\<close>: the dict the superclass
  built, and the value now bound to the key \<^verbatim>\<open>read_fields\<close>.
\<close>

record ('c, 's) context_dict =
  base :: 'c
  read_fields :: "(('c, 's) pyobj \<times> ('c, 's) pyobj) list"

definition get_context_data ::
  "('c, 's) model_object \<Rightarrow> ('c, 's) fieldspec list \<Rightarrow> 'c \<Rightarrow> 's
     \<Rightarrow> (exn + ('c, 's) context_dict) \<times> 's"
where
  "get_context_data obj fieldspecs context_data s =
     (case resolve_fields obj fieldspecs context_data s of
        (Inl e, s') \<Rightarrow> (Inl e, s')
      | (Inr ps, s') \<Rightarrow> (Inr \<lparr>base = context_data, read_fields = ps\<rparr>, s'))"

subsection \<open>The state in which each field is resolved\<close>

text \<open>
  Field \<open>i\<close> of the list is resolved in the state the fields before it have left.
\<close>

definition state_before ::
  "('c, 's) model_object \<Rightarrow> ('c, 's) fieldspec list \<Rightarrow> 'c \<Rightarrow> 's \<Rightarrow> nat \<Rightarrow> 's"
where
  "state_before obj fieldspecs context_data s i =
     snd (resolve_fields obj (take i fieldspecs) context_data s)"

definition field_resolution ::
  "('c, 's) model_object \<Rightarrow> ('c, 's) fieldspec list \<Rightarrow> 'c \<Rightarrow> 's \<Rightarrow> nat \<Rightarrow> ('c, 's) resolved"
where
  "field_resolution obj fieldspecs context_data s i =
     get_field_label_value obj (fst (fieldspecs ! i)) (snd (fieldspecs ! i)) context_data
       (state_before obj fieldspecs context_data s i)"

text \<open>
  The call that resolving a field makes in state \<open>s\<close>, if it makes one, leaves the state
  as it found it: the member a string evaluator names, when that member is callable, and
  the evaluator itself when it is a callable that is not a string.
\<close>

definition effect_free ::
  "('c, 's) model_object \<Rightarrow> 'c \<Rightarrow> 's \<Rightarrow> ('c, 's) fieldspec \<Rightarrow> bool"
where
  "effect_free obj context_data s f =
     (if is_string (snd f) then
        (case members obj s (string_of (snd f)) of
           Some attr \<Rightarrow> callable attr \<longrightarrow> snd (py_call attr [] s) = s
         | None \<Rightarrow> True)
      else callable (snd f) \<longrightarrow> snd (py_call (snd f) [context_data] s) = s)"

subsection \<open>The five modes, in the words of the specification\<close>

datatype mode = InstanceAttribute | InstanceMethod | LiteralString | ContextCallable | OpaqueLiteral

definition all_modes :: "mode list" where
  "all_modes = [InstanceAttribute, InstanceMethod, LiteralString, ContextCallable, OpaqueLiteral]"

fun mode_rank :: "mode \<Rightarrow> nat" where
  "mode_rank InstanceAttribute = 1"
| "mode_rank InstanceMethod = 2"
| "mode_rank LiteralString = 3"
| "mode_rank ContextCallable = 4"
| "mode_rank OpaqueLiteral = 5"

text \<open>
  The condition under which the specification lets each mode match. The last mode is the
  specification's "otherwise": it matches anything, and is reached only when no mode of
  higher priority matches.
\<close>

fun mode_matches :: "mode \<Rightarrow> ('c, 's) model_object \<Rightarrow> 's \<Rightarrow> ('c, 's) pyobj \<Rightarrow> bool" where
  "mode_matches InstanceAttribute obj s evaluator =
     (is_string evaluator \<and>
      (case members obj s (string_of evaluator) of Some attr \<Rightarrow> \<not> callable attr | None \<Rightarrow> False))"
| "mode_matches InstanceMethod obj s evaluator =
     (is_string evaluator \<and>
      (case members obj s (string_of evaluator) of Some attr \<Rightarrow> callable attr | None \<Rightarrow> False))"
| "mode_matches LiteralString obj s evaluator =
     (is_string evaluator \<and> members obj s (string_of evaluator) = None)"
| "mode_matches ContextCallable obj s evaluator = (\<not> is_string evaluator \<and> callable evaluator)"
| "mode_matches OpaqueLiteral obj s evaluator = True"

text \<open>A mode applies when it matches and no mode of higher priority does.\<close>

definition mode_applies :: "mode \<Rightarrow> ('c, 's) model_object \<Rightarrow> 's \<Rightarrow> ('c, 's) pyobj \<Rightarrow> bool" where
  "mode_applies m obj s evaluator =
     (mode_matches m obj s evaluator \<and>
      (\<forall>m' \<in> set all_modes. mode_rank m' < mode_rank m \<longrightarrow> \<not> mode_matches m' obj s evaluator))"

text \<open>
  The label rule of modes 1 and 2: an absent label is derived from the field metadata
  under the attribute name.
\<close>

definition derive_label ::
  "('c, 's) model_object \<Rightarrow> ('c, 's) pyobj \<Rightarrow> string \<Rightarrow> ('c, 's) pyobj \<Rightarrow> 's \<Rightarrow> ('c, 's) resolved"
where
  "derive_label obj label name val s =
     (if is_none label then
        (case get_verbose_name obj name of
           Inl e \<Rightarrow> (Inl e, s)
         | Inr l \<Rightarrow> (Inr (l, val), s))
      else (Inr (label, val), s))"

text \<open>
  What the specification says each mode computes. Reading a member the object does not
  have raises \<^verbatim>\<open>AttributeError\<close>; a mode is only ever used where it matches.
\<close>

fun resolve_in_mode ::
  "mode \<Rightarrow> ('c, 's) model_object \<Rightarrow> ('c, 's) pyobj \<Rightarrow> ('c, 's) pyobj \<Rightarrow> 'c \<Rightarrow> 's
     \<Rightarrow> ('c, 's) resolved"
where
  "resolve_in_mode InstanceAttribute obj label evaluator context_data s =
     (case members obj s (string_of evaluator) of
        Some attr \<Rightarrow> derive_label obj label (string_of evaluator) attr s
      | None \<Rightarrow> (Inl (Raised ''AttributeError''), s))"
| "resolve_in_mode InstanceMethod obj label evaluator context_data s =
     (case members obj s (string_of evaluator) of
        Some attr \<Rightarrow>
          (case py_call attr [] s of
             (Inl e, s') \<Rightarrow> (Inl e, s')
           | (Inr val, s') \<Rightarrow> derive_label obj label (string_of evaluator) val s')
      | None \<Rightarrow> (Inl (Raised ''AttributeError''), s))"
| "resolve_in_mode LiteralString obj label evaluator context_data s =
     (Inr (label, evaluator), s)"
| "resolve_in_mode ContextCallable obj label evaluator context_data s =
     (case py_call evaluator [context_data] s of
        (Inl e, s') \<Rightarrow> (Inl e, s')
      | (Inr val, s') \<Rightarrow> (Inr (label, val), s'))"
| "resolve_in_mode OpaqueLiteral obj label evaluator context_data s =
     (Inr (label, PyStr (py_str evaluator)), s)"

subsection \<open>A worked example\<close>

text \<open>
  A person record with a plain attribute \<^verbatim>\<open>id\<close>, a plain attribute \<^verbatim>\<open>nickname\<close> that is
  not a model field, a method \<^verbatim>\<open>full_name\<close>, a method \<^verbatim>\<open>broken\<close> that raises, and a
  method \<^verbatim>\<open>visits\<close> that counts its own calls in the state. Only \<^verbatim>\<open>id\<close> and
  \<^verbatim>\<open>full_name\<close> have field metadata.
\<close>

type_synonym page_context = "(string \<times> string) list"

definition person_members :: "nat \<Rightarrow> string \<Rightarrow> (page_context, nat) pyobj option" where
  "person_members s name =
     (if name = ''id'' then Some (PyInt 7)
      else if name = ''full_name'' then Some (PyFunc (\<lambda>args s. (Inr (PyStr ''Ada Lovelace''), s)))
      else if name = ''nickname'' then Some (PyStr ''ada'')
      else if name = ''broken'' then Some (PyFunc (\<lambda>args s. (Inl (Raised ''boom''), s)))
      else if name = ''visits'' then Some (PyFunc (\<lambda>args s. (Inr (PyInt (int s)), Suc s)))
      else None)"

definition person_verbose_names :: "string \<Rightarrow> string option" where
  "person_verbose_names name =
     (if name = ''id'' then Some ''ID''
      else if name = ''full_name'' then Some ''Full Name''
      else None)"

definition person :: "(page_context, nat) model_object" where
  "person = \<lparr>members = person_members, verbose_names = person_verbose_names\<rparr>"

definition frob :: "(page_context, nat) pyobj" where
  "frob = PyFunc (\<lambda>args s. case args of
                              [cd] \<Rightarrow> (Inr (PyStr ''computed''), s)
                            | _ \<Rightarrow> (Inl (Raised ''TypeError''), s))"

definition explode :: "(page_context, nat) pyobj" where
  "explode = PyFunc (\<lambda>args s. (Inl (Raised ''bang''), s))"

definition page :: page_context where
  "page = [(''title'', ''Person'')]"

text \<open>A string that is also callable, and whose text names the attribute \<^verbatim>\<open>nickname\<close>.\<close>

definition shout :: "(page_context, nat) pyobj" where
  "shout = PyCallableStr ''nickname'' (\<lambda>args s. (Inr (PyStr ''called''), Suc s))"

text \<open>A declared list that uses each of the five modes once.\<close>

definition person_fields :: "(page_context, nat) fieldspec list" where
  "person_fields =
     [(PyNone, PyStr ''id''),
      (PyNone, PyStr ''full_name''),
      (PyStr ''Foo'', PyStr ''bar''),
      (PyStr ''Stuff'', frob),
      (PyStr ''Answer'', PyInt 42)]"

lemmas person_simps = person_def person_members_def person_verbose_names_def

section \<open>Properties of the list comprehension\<close>

lemma resolve_fields_append:
  "resolve_fields obj (xs @ ys) context_data s =
     (case resolve_fields obj xs context_data s of
        (Inl e, s1) \<Rightarrow> (Inl e, s1)
      | (Inr ps, s1) \<Rightarrow>
          (case resolve_fields obj ys context_data s1 of
             (Inl e, s2) \<Rightarrow> (Inl e, s2)
           | (Inr qs, s2) \<Rightarrow> (Inr (ps @ qs), s2)))"
proof (induction xs arbitrary: s)
  case Nil
  show ?case by (simp split: prod.splits sum.splits)
next
  case (Cons f xs)
  obtain l e where f: "f = (l, e)" by (cases f)
  show ?case
    by (simp add: f Cons.IH split: prod.splits sum.splits)
qed

lemma resolve_fields_snoc:
  "resolve_fields obj (fs @ [(l, e)]) context_data s =
     (case resolve_fields obj fs context_data s of
        (Inl x, s1) \<Rightarrow> (Inl x, s1)
      | (Inr ps, s1) \<Rightarrow>
          (case get_field_label_value obj l e context_data s1 of
             (Inl x, s2) \<Rightarrow> (Inl x, s2)
           | (Inr p, s2) \<Rightarrow> (Inr (ps @ [p]), s2)))"
  by (simp add: resolve_fields_append split: prod.splits sum.splits)

lemma state_before_prefix:
  "i \<le> length fs \<Longrightarrow>
     state_before obj (fs @ gs) context_data s i = state_before obj fs context_data s i"
  by (simp add: state_before_def)

lemma field_resolution_prefix:
  "i < length fs \<Longrightarrow>
     field_resolution obj (fs @ gs) context_data s i = field_resolution obj fs context_data s i"
  by (simp add: field_resolution_def state_before_prefix nth_append)

lemma field_resolution_last:
  "field_resolution obj (fs @ [(l, e)]) context_data s (length fs) =
     get_field_label_value obj l e context_data (state_before obj fs context_data s (length fs))"
  by (simp add: field_resolution_def state_before_prefix)

lemma resolve_fields_returns:
  assumes "resolve_fields obj fs context_data s = (Inr ps, s')"
  shows "length ps = length fs
       \<and> s' = state_before obj fs context_data s (length fs)
       \<and> (\<forall>i<length fs. field_resolution obj fs context_data s i
              = (Inr (ps ! i), state_before obj fs context_data s (Suc i)))"
  using assms
proof (induction fs arbitrary: ps s' rule: rev_induct)
  case Nil
  then show ?case by (simp add: state_before_def)
next
  case (snoc f fs)
  obtain l e where f: "f = (l, e)" by (cases f)
  from snoc.prems obtain qs s1 p where
    init: "resolve_fields obj fs context_data s = (Inr qs, s1)"
    and last: "get_field_label_value obj l e context_data s1 = (Inr p, s')"
    and ps: "ps = qs @ [p]"
    by (auto simp: f resolve_fields_snoc split: prod.splits sum.splits)
  from snoc.IH [OF init] have
    len: "length qs = length fs"
    and s1: "s1 = state_before obj fs context_data s (length fs)"
    and nth: "\<forall>i<length fs. field_resolution obj fs context_data s i
                = (Inr (qs ! i), state_before obj fs context_data s (Suc i))"
    by simp_all
  have end_state: "state_before obj (fs @ [(l, e)]) context_data s (Suc (length fs)) = s'"
    using snoc.prems by (simp add: state_before_def f)
  have "field_resolution obj (fs @ [(l, e)]) context_data s i
          = (Inr ((qs @ [p]) ! i), state_before obj (fs @ [(l, e)]) context_data s (Suc i))"
    if "i < Suc (length fs)" for i
  proof (cases "i < length fs")
    case True
    then show ?thesis
      using nth len by (simp add: field_resolution_prefix state_before_prefix nth_append)
  next
    case False
    with that have i: "i = length fs" by simp
    have "(qs @ [p]) ! length fs = p"
      using len by (metis nth_append_length)
    then show ?thesis
      using last by (simp add: i field_resolution_last end_state flip: s1)
  qed
  then show ?case
    using len end_state by (simp add: f ps)
qed

lemma resolve_fields_raises:
  assumes "resolve_fields obj fs context_data s = (Inl e, s')"
  shows "\<exists>i<length fs. field_resolution obj fs context_data s i = (Inl e, s')
            \<and> (\<forall>j<i. \<exists>p. fst (field_resolution obj fs context_data s j) = Inr p)"
  using assms
proof (induction fs rule: rev_induct)
  case Nil
  then show ?case by simp
next
  case (snoc f fs)
  obtain l ev where f: "f = (l, ev)" by (cases f)
  obtain r s1 where init: "resolve_fields obj fs context_data s = (r, s1)"
    by (cases "resolve_fields obj fs context_data s")
  show ?case
  proof (cases r)
    case (Inl x)
    with init snoc.prems have "resolve_fields obj fs context_data s = (Inl e, s')"
      by (simp add: f resolve_fields_snoc)
    from snoc.IH [OF this] obtain i where "i < length fs"
      "field_resolution obj fs context_data s i = (Inl e, s')"
      "\<forall>j<i. \<exists>p. fst (field_resolution obj fs context_data s j) = Inr p"
      by blast
    then have "i < length (fs @ [f]) \<and> field_resolution obj (fs @ [f]) context_data s i = (Inl e, s')
          \<and> (\<forall>j<i. \<exists>p. fst (field_resolution obj (fs @ [f]) context_data s j) = Inr p)"
      by (simp add: field_resolution_prefix)
    then show ?thesis by blast
  next
    case (Inr ps)
    from resolve_fields_returns [OF init [unfolded Inr]] have
      s1: "s1 = state_before obj fs context_data s (length fs)"
      and nth: "\<forall>i<length fs. field_resolution obj fs context_data s i
                = (Inr (ps ! i), state_before obj fs context_data s (Suc i))"
      by simp_all
    from init Inr snoc.prems have "get_field_label_value obj l ev context_data s1 = (Inl e, s')"
      by (auto simp: resolve_fields_snoc f split: prod.splits sum.splits)
    then have a: "field_resolution obj (fs @ [f]) context_data s (length fs) = (Inl e, s')"
      by (simp add: f field_resolution_last s1)
    have b: "\<forall>j<length fs. \<exists>p. fst (field_resolution obj (fs @ [f]) context_data s j) = Inr p"
      using nth by (simp add: field_resolution_prefix)
    show ?thesis using a b by (intro exI [of _ "length fs"]) simp
  qed
qed


text \<open>
  Claim C1, as amended. When every field of the declared list resolves without raising
  (each in the state the fields before it have left), \<open>get_context_data\<close> returns a
  context whose \<open>read_fields\<close> has exactly as many pairs as the list has fields, and the
  pair at position \<open>i\<close> is the resolution of the field at position \<open>i\<close>.
\<close>

theorem all_fields_in_order:
  assumes "\<forall>i<length fieldspecs. \<exists>p. fst (field_resolution obj fieldspecs context_data s i) = Inr p"
  shows "\<exists>cd s'. get_context_data obj fieldspecs context_data s = (Inr cd, s')
           \<and> base cd = context_data
           \<and> length (read_fields cd) = length fieldspecs
           \<and> (\<forall>i<length fieldspecs.
                 fst (field_resolution obj fieldspecs context_data s i) = Inr (read_fields cd ! i))"
proof -
  obtain r s' where run: "resolve_fields obj fieldspecs context_data s = (r, s')"
    by (cases "resolve_fields obj fieldspecs context_data s")
  show ?thesis
  proof (cases r)
    case (Inl e)
    from resolve_fields_raises [OF run [unfolded Inl]] assms show ?thesis
      by (metis Inl_Inr_False fst_conv)
  next
    case (Inr ps)
    from resolve_fields_returns [OF run [unfolded Inr]] show ?thesis
      by (simp add: get_context_data_def run Inr)
  qed
qed


text \<open>
  Claim C1, witness: the list \<open>person_fields\<close>, one field for each mode, all of which
  resolve.
\<close>

theorem all_fields_in_order_witness:
  "\<exists>cd s'. get_context_data person person_fields page 0 = (Inr cd, s')
      \<and> base cd = page
      \<and> length (read_fields cd) = length person_fields
      \<and> fst (field_resolution person person_fields page 0 0) = Inr (read_fields cd ! 0)
      \<and> fst (field_resolution person person_fields page 0 1) = Inr (read_fields cd ! 1)
      \<and> fst (field_resolution person person_fields page 0 2) = Inr (read_fields cd ! 2)
      \<and> fst (field_resolution person person_fields page 0 3) = Inr (read_fields cd ! 3)
      \<and> fst (field_resolution person person_fields page 0 4) = Inr (read_fields cd ! 4)"
proof -
  have h: "\<forall>i<length person_fields. \<exists>p. fst (field_resolution person person_fields page 0 i) = Inr p"
    by (simp add: person_fields_def All_less_Suc field_resolution_def state_before_def
          get_field_label_value_def get_verbose_name_def person_simps frob_def)
  have len: "length person_fields = 5"
    by (simp add: person_fields_def)
  from all_fields_in_order [OF h] obtain cd s' where
    run: "get_context_data person person_fields page 0 = (Inr cd, s')"
    and ctx: "base cd = page"
    and n: "length (read_fields cd) = length person_fields"
    and nth: "\<forall>i<length person_fields.
                fst (field_resolution person person_fields page 0 i) = Inr (read_fields cd ! i)"
    by blast
  from nth len have
    "fst (field_resolution person person_fields page 0 0) = Inr (read_fields cd ! 0)"
    "fst (field_resolution person person_fields page 0 1) = Inr (read_fields cd ! 1)"
    "fst (field_resolution person person_fields page 0 2) = Inr (read_fields cd ! 2)"
    "fst (field_resolution person person_fields page 0 3) = Inr (read_fields cd ! 3)"
    "fst (field_resolution person person_fields page 0 4) = Inr (read_fields cd ! 4)"
    by simp_all
  with run ctx n show ?thesis by blast
qed

text \<open>
  Claim C1 as stated fails: a list of two fields whose second field names the attribute
  \<^verbatim>\<open>nickname\<close>, which has no field metadata, with no label. The comprehension raises and
  no pair is produced.
\<close>

theorem all_fields_in_order_counterexample:
  "length [(PyNone, PyStr ''id''), (PyNone, PyStr ''nickname'') :: (page_context, nat) fieldspec] = 2
   \<and> get_context_data person [(PyNone, PyStr ''id''), (PyNone, PyStr ''nickname'')] page 0
       = (Inl ConfigurationError, 0)"
  by (simp add: get_context_data_def get_field_label_value_def get_verbose_name_def person_simps)

text \<open>When the comprehension raises, the exception is that of the first field that raises.\<close>

lemma get_context_data_raises:
  assumes "get_context_data obj fieldspecs context_data s = (Inl e, s')"
  shows "\<exists>i<length fieldspecs. field_resolution obj fieldspecs context_data s i = (Inl e, s')
            \<and> (\<forall>j<i. \<exists>p. fst (field_resolution obj fieldspecs context_data s j) = Inr p)"
proof -
  from assms have "resolve_fields obj fieldspecs context_data s = (Inl e, s')"
    by (auto simp: get_context_data_def split: prod.splits sum.splits)
  then show ?thesis by (rule resolve_fields_raises)
qed

section \<open>Properties of the resolution of one field\<close>

subsection \<open>Mode selection\<close>


lemma applies_instance_attribute:
  "mode_applies InstanceAttribute obj s ev =
     (is_string ev \<and> (\<exists>attr. members obj s (string_of ev) = Some attr \<and> \<not> callable attr))"
  by (auto simp: mode_applies_def all_modes_def split: option.splits)

lemma applies_instance_method:
  "mode_applies InstanceMethod obj s ev =
     (is_string ev \<and> (\<exists>attr. members obj s (string_of ev) = Some attr \<and> callable attr))"
  by (auto simp: mode_applies_def all_modes_def split: option.splits)

lemma applies_literal_string:
  "mode_applies LiteralString obj s ev = (is_string ev \<and> members obj s (string_of ev) = None)"
  by (auto simp: mode_applies_def all_modes_def split: option.splits)

lemma applies_context_callable:
  "mode_applies ContextCallable obj s ev = (\<not> is_string ev \<and> callable ev)"
  by (auto simp: mode_applies_def all_modes_def split: option.splits)

lemma applies_opaque_literal:
  "mode_applies OpaqueLiteral obj s ev = (\<not> is_string ev \<and> \<not> callable ev)"
  by (auto simp: mode_applies_def all_modes_def split: option.splits)

lemmas applies_simps = applies_instance_attribute applies_instance_method
  applies_literal_string applies_context_callable applies_opaque_literal

lemma mode_applies_unique:
  "mode_applies m obj s ev \<Longrightarrow> mode_applies m' obj s ev \<Longrightarrow> m = m'"
  by (cases m; cases m') (auto simp: applies_simps)

lemma mode_applies_exists: "\<exists>m. mode_applies m obj s ev"
proof (cases "is_string ev")
  case True
  show ?thesis
  proof (cases "members obj s (string_of ev)")
    case None
    with True have "mode_applies LiteralString obj s ev" by (simp add: applies_simps)
    then show ?thesis ..
  next
    case (Some attr)
    show ?thesis
    proof (cases "callable attr")
      case True
      with \<open>is_string ev\<close> Some have "mode_applies InstanceMethod obj s ev"
        by (simp add: applies_simps)
      then show ?thesis ..
    next
      case False
      with \<open>is_string ev\<close> Some have "mode_applies InstanceAttribute obj s ev"
        by (simp add: applies_simps)
      then show ?thesis ..
    qed
  qed
next
  case False
  show ?thesis
  proof (cases "callable ev")
    case True
    with False have "mode_applies ContextCallable obj s ev" by (simp add: applies_simps)
    then show ?thesis ..
  next
    case c: False
    with False have "mode_applies OpaqueLiteral obj s ev" by (simp add: applies_simps)
    then show ?thesis ..
  qed
qed

lemma resolve_in_applicable_mode:
  "mode_applies m obj s ev \<Longrightarrow>
     get_field_label_value obj label ev context_data s = resolve_in_mode m obj label ev context_data s"
  by (cases m)
     (auto simp: applies_simps get_field_label_value_def derive_label_def
           split: prod.splits sum.splits)


text \<open>
  Claim C2. Exactly one of the five modes applies to an evaluator, the first that matches
  in the order 1 to 5; the code resolves the field as that mode says; and a string
  evaluator is never resolved as a context-aware callable or as an opaque literal, whether
  or not it is callable.
\<close>

theorem mode_selection:
  "(\<exists>!m. mode_applies m obj s evaluator)
   \<and> (\<forall>m. mode_applies m obj s evaluator \<longrightarrow>
         get_field_label_value obj label evaluator context_data s
           = resolve_in_mode m obj label evaluator context_data s)
   \<and> (is_string evaluator \<longrightarrow>
         \<not> mode_applies ContextCallable obj s evaluator
       \<and> \<not> mode_applies OpaqueLiteral obj s evaluator)"
proof (intro conjI)
  show "\<exists>!m. mode_applies m obj s evaluator"
    using mode_applies_exists mode_applies_unique by (rule ex_ex1I)
  show "\<forall>m. mode_applies m obj s evaluator \<longrightarrow>
         get_field_label_value obj label evaluator context_data s
           = resolve_in_mode m obj label evaluator context_data s"
    by (simp add: resolve_in_applicable_mode)
  show "is_string evaluator \<longrightarrow>
         \<not> mode_applies ContextCallable obj s evaluator
       \<and> \<not> mode_applies OpaqueLiteral obj s evaluator"
    by (simp add: applies_simps)
qed


text \<open>
  Claim C2, witness: the callable string \<open>shout\<close> names the plain attribute
  \<^verbatim>\<open>nickname\<close>; it is resolved as an instance attribute and is not called.
\<close>

theorem mode_selection_witness:
  "mode_applies InstanceAttribute person 0 shout
   \<and> get_field_label_value person (PyStr ''Nick'') shout page 0 = (Inr (PyStr ''Nick'', PyStr ''ada''), 0)
   \<and> \<not> mode_applies ContextCallable person 0 shout
   \<and> \<not> mode_applies OpaqueLiteral person 0 shout"
proof -
  have a: "mode_applies InstanceAttribute person 0 shout"
    by (simp add: mode_applies_def all_modes_def shout_def person_simps)
  have s: "is_string shout" by (simp add: shout_def)
  have r: "resolve_in_mode InstanceAttribute person (PyStr ''Nick'') shout page 0
             = (Inr (PyStr ''Nick'', PyStr ''ada''), 0)"
    by (simp add: shout_def person_simps derive_label_def)
  from mode_selection [of person 0 shout "PyStr ''Nick''" page] a s r show ?thesis
    by simp
qed


subsection \<open>String evaluators\<close>

text \<open>
  Claim C3. When a string evaluator names a member of the object, the callability of that
  member alone decides between the two modes: a callable member is invoked with no
  arguments and the value is what the invocation returns (its exception, if it raises); a
  member that is not callable is the value itself. The name plays no part.
\<close>

theorem attribute_or_method_by_callability:
  assumes "is_string evaluator"
    and "members obj s (string_of evaluator) = Some attr"
  shows "(callable attr \<longrightarrow>
            (case py_call attr [] s of
               (Inl e, s') \<Rightarrow>
                 get_field_label_value obj label evaluator context_data s = (Inl e, s')
             | (Inr val, s') \<Rightarrow>
                 (\<exists>l. get_field_label_value obj label evaluator context_data s = (Inr (l, val), s'))
               \<or> (is_none label \<and> verbose_names obj (string_of evaluator) = None
                  \<and> get_field_label_value obj label evaluator context_data s
                      = (Inl ConfigurationError, s'))))
       \<and> (\<not> callable attr \<longrightarrow>
            (\<exists>l. get_field_label_value obj label evaluator context_data s = (Inr (l, attr), s))
          \<or> (is_none label \<and> verbose_names obj (string_of evaluator) = None
             \<and> get_field_label_value obj label evaluator context_data s
                 = (Inl ConfigurationError, s)))"
  using assms
  by (auto simp: get_field_label_value_def get_verbose_name_def
           split: prod.splits sum.splits option.splits)


text \<open>
  Claim C3, witness: \<^verbatim>\<open>full_name\<close> is a method and is called, \<^verbatim>\<open>id\<close> is a plain
  attribute and is read.
\<close>

theorem attribute_or_method_by_callability_witness:
  "(\<exists>l. get_field_label_value person PyNone (PyStr ''full_name'') page 0
           = (Inr (l, PyStr ''Ada Lovelace''), 0))
   \<and> (\<exists>l. get_field_label_value person PyNone (PyStr ''id'') page 0 = (Inr (l, PyInt 7), 0))"
proof -
  let ?m = "PyFunc (\<lambda>args s. (Inr (PyStr ''Ada Lovelace''), s)) :: (page_context, nat) pyobj"
  have s1: "is_string (PyStr ''full_name'' :: (page_context, nat) pyobj)" by simp
  have m1: "members person 0 (string_of (PyStr ''full_name'' :: (page_context, nat) pyobj)) = Some ?m"
    by (simp add: person_simps)
  have s2: "is_string (PyStr ''id'' :: (page_context, nat) pyobj)" by simp
  have m2: "members person 0 (string_of (PyStr ''id'' :: (page_context, nat) pyobj)) = Some (PyInt 7)"
    by (simp add: person_simps)
  have v1: "verbose_names person (string_of (PyStr ''full_name'' :: (page_context, nat) pyobj)) \<noteq> None"
    by (simp add: person_simps)
  have v2: "verbose_names person (string_of (PyStr ''id'' :: (page_context, nat) pyobj)) \<noteq> None"
    by (simp add: person_simps)
  from attribute_or_method_by_callability [OF s1 m1, of PyNone page] v1
  have a: "\<exists>l. get_field_label_value person PyNone (PyStr ''full_name'') page 0
           = (Inr (l, PyStr ''Ada Lovelace''), 0)"
    by auto
  from attribute_or_method_by_callability [OF s2 m2, of PyNone page] v2
  have b: "\<exists>l. get_field_label_value person PyNone (PyStr ''id'') page 0 = (Inr (l, PyInt 7), 0)"
    by auto
  from a b show ?thesis ..
qed


text \<open>
  Claim C4, as amended. For the field \<^verbatim>\<open>(None, 'missing_field')\<close> on an object that has no
  member of that name, resolution raises nothing: it returns the pair of the absent label
  and the string itself, whatever the field metadata holds.
\<close>

theorem missing_field_passes_through:
  assumes "members obj s ''missing_field'' = None"
  shows "get_field_label_value obj PyNone (PyStr ''missing_field'') context_data s
           = (Inr (PyNone, PyStr ''missing_field''), s)"
  using assms by (simp add: get_field_label_value_def)


text \<open>Claim C4, witness: an object with no member of that name and no metadata at all.\<close>

theorem missing_field_passes_through_witness:
  "get_field_label_value (person\<lparr>verbose_names := Map.empty\<rparr>) PyNone (PyStr ''missing_field'') [] 3
     = (Inr (PyNone, PyStr ''missing_field''), 3)"
proof -
  have "members (person\<lparr>verbose_names := Map.empty\<rparr>) 3 ''missing_field'' = None"
    by (simp add: person_simps)
  then show ?thesis by (rule missing_field_passes_through)
qed


text \<open>
  Claim C4 as stated fails: the person record has neither a member nor a metadata entry
  named \<^verbatim>\<open>missing_field\<close>, and resolution returns a pair instead of raising.
\<close>

theorem missing_field_counterexample:
  "members person 0 ''missing_field'' = None
   \<and> verbose_names person ''missing_field'' = None
   \<and> get_field_label_value person PyNone (PyStr ''missing_field'') page 0
       = (Inr (PyNone, PyStr ''missing_field''), 0)
   \<and> fst (get_field_label_value person PyNone (PyStr ''missing_field'') page 0)
       \<noteq> Inl ConfigurationError"
  by (simp add: get_field_label_value_def person_simps)


text \<open>
  Claim C5, as amended. When the label is absent and the string evaluator names a member
  whose value has been obtained (the member is not callable, or its invocation has
  returned), the output label is the verbose name the field metadata holds under that
  attribute name, and resolution raises \<open>ConfigurationError\<close> when the metadata holds none.
\<close>

theorem label_derived_from_metadata:
  assumes "is_none label"
    and "is_string evaluator"
    and "members obj s (string_of evaluator) = Some attr"
    and "(if callable attr then py_call attr [] s else (Inr attr, s)) = (Inr val, s')"
  shows "get_field_label_value obj label evaluator context_data s =
           (case verbose_names obj (string_of evaluator) of
              None \<Rightarrow> (Inl ConfigurationError, s')
            | Some t \<Rightarrow> (Inr (PyStr t, val), s'))"
  using assms
  by (simp add: get_field_label_value_def get_verbose_name_def split: option.splits)


text \<open>
  Claim C5, witness: \<^verbatim>\<open>id\<close> has the verbose name \<^verbatim>\<open>ID\<close>; \<^verbatim>\<open>nickname\<close> is a member
  without metadata.
\<close>

theorem label_derived_from_metadata_witness:
  "get_field_label_value person PyNone (PyStr ''id'') page 0 = (Inr (PyStr ''ID'', PyInt 7), 0)
   \<and> get_field_label_value person PyNone (PyStr ''nickname'') page 0 = (Inl ConfigurationError, 0)"
proof -
  have n: "is_none (PyNone :: (page_context, nat) pyobj)" by simp
  have s1: "is_string (PyStr ''id'' :: (page_context, nat) pyobj)" by simp
  have m1: "members person 0 (string_of (PyStr ''id'' :: (page_context, nat) pyobj)) = Some (PyInt 7)"
    by (simp add: person_simps)
  have c1: "(if callable (PyInt 7 :: (page_context, nat) pyobj) then py_call (PyInt 7) [] 0
             else (Inr (PyInt 7), 0)) = (Inr (PyInt 7 :: (page_context, nat) pyobj), 0::nat)"
    by simp
  have s2: "is_string (PyStr ''nickname'' :: (page_context, nat) pyobj)" by simp
  have m2: "members person 0 (string_of (PyStr ''nickname'' :: (page_context, nat) pyobj))
              = Some (PyStr ''ada'')"
    by (simp add: person_simps)
  have c2: "(if callable (PyStr ''ada'' :: (page_context, nat) pyobj) then py_call (PyStr ''ada'') [] 0
             else (Inr (PyStr ''ada''), 0)) = (Inr (PyStr ''ada'' :: (page_context, nat) pyobj), 0::nat)"
    by simp
  from label_derived_from_metadata [OF n s1 m1 c1, of page]
  have a: "get_field_label_value person PyNone (PyStr ''id'') page 0 = (Inr (PyStr ''ID'', PyInt 7), 0)"
    by (simp add: person_simps)
  from label_derived_from_metadata [OF n s2 m2 c2, of page]
  have b: "get_field_label_value person PyNone (PyStr ''nickname'') page 0 = (Inl ConfigurationError, 0)"
    by (simp add: person_simps)
  from a b show ?thesis ..
qed


text \<open>
  Claim C5 as stated fails: \<^verbatim>\<open>broken\<close> is a member without metadata, the label is
  absent, and resolution raises the method's own exception, not \<open>ConfigurationError\<close>:
  the value is computed before the label is derived.
\<close>

theorem derived_label_counterexample:
  "members person 0 ''broken'' \<noteq> None
   \<and> verbose_names person ''broken'' = None
   \<and> get_field_label_value person PyNone (PyStr ''broken'') page 0 = (Inl (Raised ''boom''), 0)
   \<and> fst (get_field_label_value person PyNone (PyStr ''broken'') page 0) \<noteq> Inl ConfigurationError"
  by (simp add: get_field_label_value_def person_simps)


text \<open>
  Claim C6. A string evaluator that names no member of the object is passed through
  unchanged as the value, next to the label as given.
\<close>

theorem literal_string_passthrough:
  assumes "is_string evaluator" and "members obj s (string_of evaluator) = None"
  shows "get_field_label_value obj label evaluator context_data s = (Inr (label, evaluator), s)"
  using assms by (simp add: get_field_label_value_def)

text \<open>Claim C6, witness: the field \<^verbatim>\<open>("Foo", "bar")\<close> on the person record.\<close>

theorem literal_string_passthrough_witness:
  "get_field_label_value person (PyStr ''Foo'') (PyStr ''bar'') page 0
     = (Inr (PyStr ''Foo'', PyStr ''bar''), 0)"
proof -
  have m: "members person 0 (string_of (PyStr ''bar'' :: (page_context, nat) pyobj)) = None"
    by (simp add: person_simps)
  have i: "is_string (PyStr ''bar'' :: (page_context, nat) pyobj)" by simp
  show ?thesis using literal_string_passthrough [OF i m] .
qed

subsection \<open>Evaluators that are not strings\<close>

text \<open>
  Claim C7. An evaluator that is not a string and is callable is invoked with the context
  dict as its only argument; the value is what the invocation returns, and the label is
  the label as given.
\<close>

theorem context_callable_value:
  assumes "\<not> is_string evaluator" and "callable evaluator"
  shows "get_field_label_value obj label evaluator context_data s =
           (case py_call evaluator [context_data] s of
              (Inl e, s') \<Rightarrow> (Inl e, s')
            | (Inr val, s') \<Rightarrow> (Inr (label, val), s'))"
  using assms by (simp add: get_field_label_value_def)

text \<open>Claim C7, witness: the field \<^verbatim>\<open>("Stuff", frob)\<close>.\<close>

theorem context_callable_value_witness:
  "get_field_label_value person (PyStr ''Stuff'') frob page 0
     = (Inr (PyStr ''Stuff'', PyStr ''computed''), 0)"
proof -
  have a: "\<not> is_string frob" by (simp add: frob_def)
  have b: "callable frob" by (simp add: frob_def)
  show ?thesis using context_callable_value [OF a b, of person "PyStr ''Stuff''" page 0]
    by (simp add: frob_def)
qed

subsection \<open>Exceptions\<close>

text \<open>
  Claim C8. An exception raised by the invocation of an instance method (mode 2) or of a
  context-aware callable (mode 4) is the outcome of the resolution, in the state the one
  invocation has left, and it is then the outcome of the whole comprehension: nothing is
  retried, swallowed or replaced by a default.
\<close>

theorem evaluator_exceptions_propagate:
  "(is_string evaluator \<and> members obj s (string_of evaluator) = Some attr \<and> callable attr
      \<and> py_call attr [] s = (Inl e, s')
      \<longrightarrow> get_field_label_value obj label evaluator context_data s = (Inl e, s'))
   \<and> (\<not> is_string evaluator \<and> callable evaluator
      \<and> py_call evaluator [context_data] s = (Inl e, s')
      \<longrightarrow> get_field_label_value obj label evaluator context_data s = (Inl e, s'))
   \<and> (resolve_fields obj before context_data s0 = (Inr ps, s)
      \<and> get_field_label_value obj label evaluator context_data s = (Inl e, s')
      \<longrightarrow> get_context_data obj (before @ (label, evaluator) # after) context_data s0 = (Inl e, s'))"
  by (simp add: get_field_label_value_def get_context_data_def resolve_fields_append)


text \<open>
  Claim C8, witness: the method \<^verbatim>\<open>broken\<close>, the callable \<open>explode\<close>, and a list in which
  \<open>explode\<close> follows a field that resolves.
\<close>

theorem evaluator_exceptions_propagate_witness:
  "get_field_label_value person (PyStr ''B'') (PyStr ''broken'') page 0 = (Inl (Raised ''boom''), 0)
   \<and> get_field_label_value person (PyStr ''X'') explode page 0 = (Inl (Raised ''bang''), 0)
   \<and> get_context_data person
        [(PyNone, PyStr ''id''), (PyStr ''X'', explode), (PyStr ''Foo'', PyStr ''bar'')] page 0
       = (Inl (Raised ''bang''), 0)"
proof -
  let ?b = "PyFunc (\<lambda>args s. (Inl (Raised ''boom''), s)) :: (page_context, nat) pyobj"
  have h1: "is_string (PyStr ''broken'' :: (page_context, nat) pyobj)
      \<and> members person 0 (string_of (PyStr ''broken'' :: (page_context, nat) pyobj)) = Some ?b
      \<and> callable ?b \<and> py_call ?b [] 0 = (Inl (Raised ''boom''), 0)"
    by (simp add: person_simps)
  have h2: "\<not> is_string explode \<and> callable explode
      \<and> py_call explode [page] 0 = (Inl (Raised ''bang''), 0)"
    by (simp add: explode_def)
  have h3: "resolve_fields person [(PyNone, PyStr ''id'')] page 0 = (Inr [(PyStr ''ID'', PyInt 7)], 0)"
    by (simp add: get_field_label_value_def get_verbose_name_def person_simps)
  have a: "get_field_label_value person (PyStr ''B'') (PyStr ''broken'') page 0
             = (Inl (Raised ''boom''), 0)"
    using evaluator_exceptions_propagate
            [of "PyStr ''broken''" person 0 ?b "Raised ''boom''" 0 "PyStr ''B''" page] h1
    by blast
  have b: "get_field_label_value person (PyStr ''X'') explode page 0 = (Inl (Raised ''bang''), 0)"
    using evaluator_exceptions_propagate
            [of explode person 0 _ "Raised ''bang''" 0 "PyStr ''X''" page] h2
    by blast
  have c: "get_context_data person
        ([(PyNone, PyStr ''id'')] @ (PyStr ''X'', explode) # [(PyStr ''Foo'', PyStr ''bar'')]) page 0
       = (Inl (Raised ''bang''), 0)"
    using evaluator_exceptions_propagate
            [of explode person 0 _ "Raised ''bang''" 0 "PyStr ''X''" page
                "[(PyNone, PyStr ''id'')]" 0 "[(PyStr ''ID'', PyInt 7)]"
                "[(PyStr ''Foo'', PyStr ''bar'')]"] h3 b
    by blast
  from a b c show ?thesis by simp
qed


subsection \<open>Running the resolution twice\<close>


lemma get_field_label_value_effect_free:
  "effect_free obj context_data s (l, e) \<Longrightarrow> snd (get_field_label_value obj l e context_data s) = s"
  by (auto simp: effect_free_def get_field_label_value_def get_verbose_name_def
           split: option.splits prod.splits sum.splits if_splits)

lemma resolve_fields_effect_free:
  "\<forall>f \<in> set fs. effect_free obj context_data s f \<Longrightarrow> snd (resolve_fields obj fs context_data s) = s"
proof (induction fs)
  case Nil
  show ?case by simp
next
  case (Cons f fs)
  obtain l e where f: "f = (l, e)" by (cases f)
  from Cons.prems have "snd (get_field_label_value obj l e context_data s) = s"
    by (simp add: f get_field_label_value_effect_free)
  moreover from Cons have "snd (resolve_fields obj fs context_data s) = s" by simp
  ultimately show ?case
    by (auto simp: f split: prod.splits sum.splits)
qed


text \<open>
  Claim C9. When the calls that resolving the fields makes leave the state as they found
  it, resolving the same list against the same object and context a second time gives the
  same outcome as the first time.
\<close>

theorem resolution_idempotent:
  assumes "\<forall>f \<in> set fieldspecs. effect_free obj context_data s f"
  shows "snd (get_context_data obj fieldspecs context_data s) = s
       \<and> get_context_data obj fieldspecs context_data
            (snd (get_context_data obj fieldspecs context_data s))
          = get_context_data obj fieldspecs context_data s"
proof -
  have "snd (get_context_data obj fieldspecs context_data s)
          = snd (resolve_fields obj fieldspecs context_data s)"
    by (simp add: get_context_data_def split: prod.splits sum.splits)
  then have "snd (get_context_data obj fieldspecs context_data s) = s"
    using resolve_fields_effect_free [OF assms] by simp
  then show ?thesis by simp
qed


text \<open>Claim C9, witness: the fields of \<open>person_fields\<close> have no effect on the state.\<close>

theorem resolution_idempotent_witness:
  "snd (get_context_data person person_fields page 0) = 0
   \<and> get_context_data person person_fields page (snd (get_context_data person person_fields page 0))
       = get_context_data person person_fields page 0"
proof -
  have h: "\<forall>f \<in> set person_fields. effect_free person page 0 f"
    by (simp add: person_fields_def effect_free_def person_simps frob_def)
  from resolution_idempotent [OF h] show ?thesis by simp
qed

text \<open>
  The hypothesis is needed: the method \<^verbatim>\<open>visits\<close> counts its calls, and the second
  resolution differs from the first.
\<close>

lemma visits_twice:
  "get_context_data person [(PyStr ''Visits'', PyStr ''visits'')] page 0
     = (Inr \<lparr>base = page, read_fields = [(PyStr ''Visits'', PyInt 0)]\<rparr>, 1)
   \<and> get_context_data person [(PyStr ''Visits'', PyStr ''visits'')] page 1
     = (Inr \<lparr>base = page, read_fields = [(PyStr ''Visits'', PyInt 1)]\<rparr>, 2)"
  by (simp add: get_context_data_def get_field_label_value_def person_simps)

subsection \<open>Labels\<close>

text \<open>
  Claim C10. A label that is not \<^verbatim>\<open>None\<close> (the empty string included) is the output label
  in every mode. The output label differs from the given one only when the given one is
  \<^verbatim>\<open>None\<close> and the evaluator is a string naming a member of the object. In modes 3, 4 and
  5 the label, \<^verbatim>\<open>None\<close> included, is returned as given, the resolver raises nothing of its
  own, and the field metadata is not consulted.
\<close>

theorem label_passthrough:
  "(\<not> is_none label \<and> get_field_label_value obj label evaluator context_data s = (Inr (l, v), s')
      \<longrightarrow> l = label)
   \<and> (get_field_label_value obj label evaluator context_data s = (Inr (l, v), s') \<and> l \<noteq> label
      \<longrightarrow> is_none label \<and> is_string evaluator \<and> hasattr obj s (string_of evaluator))
   \<and> (\<not> (is_string evaluator \<and> hasattr obj s (string_of evaluator))
      \<longrightarrow> get_field_label_value obj label evaluator context_data s
            = (if is_string evaluator then (Inr (label, evaluator), s)
               else if callable evaluator then
                 (case py_call evaluator [context_data] s of
                    (Inl e, s') \<Rightarrow> (Inl e, s')
                  | (Inr val, s') \<Rightarrow> (Inr (label, val), s'))
               else (Inr (label, PyStr (py_str evaluator)), s))
        \<and> get_field_label_value (obj\<lparr>verbose_names := vn\<rparr>) label evaluator context_data s
            = get_field_label_value obj label evaluator context_data s)"
  by (auto simp: get_field_label_value_def hasattr_def
           split: option.splits prod.splits sum.splits if_splits)


text \<open>
  Claim C10, witness: an empty label in mode 1, and an absent label in modes 3, 4 and 5.
\<close>

theorem label_passthrough_witness:
  "get_field_label_value person (PyStr []) (PyStr ''id'') page 0 = (Inr (PyStr [], PyInt 7), 0)
   \<and> get_field_label_value person PyNone (PyStr ''bar'') page 0 = (Inr (PyNone, PyStr ''bar''), 0)
   \<and> get_field_label_value person PyNone frob page 0 = (Inr (PyNone, PyStr ''computed''), 0)
   \<and> get_field_label_value person PyNone (PyBool True) page 0 = (Inr (PyNone, PyStr ''True''), 0)
   \<and> get_field_label_value (person\<lparr>verbose_names := Map.empty\<rparr>) PyNone (PyStr ''bar'') page 0
       = get_field_label_value person PyNone (PyStr ''bar'') page 0"
proof -
  have e: "get_field_label_value person (PyStr []) (PyStr ''id'') page 0 = (Inr (PyStr [], PyInt 7), 0)"
    by (simp add: get_field_label_value_def person_simps)
  have n: "\<not> is_none (PyStr [] :: (page_context, nat) pyobj)" by simp
  have a: "\<not> (is_string (PyStr ''bar'' :: (page_context, nat) pyobj)
             \<and> hasattr person 0 (string_of (PyStr ''bar'' :: (page_context, nat) pyobj)))"
    by (simp add: hasattr_def person_simps)
  have b: "\<not> (is_string frob \<and> hasattr person 0 (string_of frob))"
    by (simp add: frob_def)
  have c: "\<not> (is_string (PyBool True :: (page_context, nat) pyobj)
             \<and> hasattr person 0 (string_of (PyBool True :: (page_context, nat) pyobj)))"
    by simp
  from label_passthrough [of "PyStr []" person "PyStr ''id''" page 0 "PyStr []" "PyInt 7" 0] n e
  have 1: "get_field_label_value person (PyStr []) (PyStr ''id'') page 0 = (Inr (PyStr [], PyInt 7), 0)"
    by simp
  from label_passthrough [of PyNone person "PyStr ''bar''" page 0 _ _ _ Map.empty] a
  have 2: "get_field_label_value person PyNone (PyStr ''bar'') page 0 = (Inr (PyNone, PyStr ''bar''), 0)"
    and 5: "get_field_label_value (person\<lparr>verbose_names := Map.empty\<rparr>) PyNone (PyStr ''bar'') page 0
       = get_field_label_value person PyNone (PyStr ''bar'') page 0"
    by simp_all
  from label_passthrough [of PyNone person frob page 0] b
  have 3: "get_field_label_value person PyNone frob page 0 = (Inr (PyNone, PyStr ''computed''), 0)"
    by (simp add: frob_def)
  from label_passthrough [of PyNone person "PyBool True" page 0] c
  have 4: "get_field_label_value person PyNone (PyBool True) page 0 = (Inr (PyNone, PyStr ''True''), 0)"
    by simp
  from 1 2 3 4 5 show ?thesis by simp
qed


subsection \<open>The scenarios of the specification\<close>

lemma scenario_id:
  "get_field_label_value person PyNone (PyStr ''id'') page 0 = (Inr (PyStr ''ID'', PyInt 7), 0)"
  by (simp add: get_field_label_value_def get_verbose_name_def person_simps)

lemma scenario_full_name:
  "get_field_label_value person PyNone (PyStr ''full_name'') page 0
     = (Inr (PyStr ''Full Name'', PyStr ''Ada Lovelace''), 0)"
  by (simp add: get_field_label_value_def get_verbose_name_def person_simps)

lemma scenario_answer:
  "get_field_label_value person (PyStr ''Answer'') (PyInt 42) page 0
     = (Inr (PyStr ''Answer'', PyStr ''42''), 0)"
  by (simp add: get_field_label_value_def str_int_def str_nat.simps digit_char_def)

end
